theory Spec2Isabelle
  imports Complex_Main
begin

section \<open>Scalars: numpy float64 values\<close>

text \<open>
  The arrays of \<^verbatim>\<open>baseline.py\<close> hold numpy \<^verbatim>\<open>float64\<close> values. A scalar is
  modelled as a real number or one of the three special values of IEEE arithmetic, so
  that the cases the code tests for (\<^verbatim>\<open>np.isfinite\<close>) and the cases where
  \<^verbatim>\<open>log\<close> and the division leave the reals are values of the model. Arithmetic on
  finite values is exact: rounding, overflow, underflow and the sign of zero are not
  modelled. As in numpy, no operation on scalars raises.
\<close>

datatype fl = Fin real | PInf | MInf | NaN

fun isfinite :: "fl \<Rightarrow> bool" where
  "isfinite (Fin x) = True"
| "isfinite PInf = False"
| "isfinite MInf = False"
| "isfinite NaN = False"


definition inf_of :: "real \<Rightarrow> fl" where
  "inf_of x = (if x = 0 then NaN else if 0 < x then PInf else MInf)"

fun fneg :: "fl \<Rightarrow> fl" where
  "fneg (Fin x) = Fin (- x)"
| "fneg PInf = MInf"
| "fneg MInf = PInf"
| "fneg NaN = NaN"

fun fadd :: "fl \<Rightarrow> fl \<Rightarrow> fl" where
  "fadd (Fin x) (Fin y) = Fin (x + y)"
| "fadd NaN b = NaN"
| "fadd a NaN = NaN"
| "fadd PInf MInf = NaN"
| "fadd MInf PInf = NaN"
| "fadd PInf b = PInf"
| "fadd a PInf = PInf"
| "fadd MInf b = MInf"
| "fadd a MInf = MInf"

definition fsub :: "fl \<Rightarrow> fl \<Rightarrow> fl" where
  "fsub a b = fadd a (fneg b)"

fun fmul :: "fl \<Rightarrow> fl \<Rightarrow> fl" where
  "fmul (Fin x) (Fin y) = Fin (x * y)"
| "fmul NaN b = NaN"
| "fmul a NaN = NaN"
| "fmul (Fin x) PInf = inf_of x"
| "fmul (Fin x) MInf = inf_of (- x)"
| "fmul PInf (Fin y) = inf_of y"
| "fmul MInf (Fin y) = inf_of (- y)"
| "fmul PInf PInf = PInf"
| "fmul PInf MInf = MInf"
| "fmul MInf PInf = MInf"
| "fmul MInf MInf = PInf"

fun fdiv :: "fl \<Rightarrow> fl \<Rightarrow> fl" where
  "fdiv (Fin x) (Fin y) = (if y = 0 then inf_of x else Fin (x / y))"
| "fdiv NaN b = NaN"
| "fdiv a NaN = NaN"
| "fdiv (Fin x) PInf = Fin 0"
| "fdiv (Fin x) MInf = Fin 0"
| "fdiv PInf (Fin y) = (if 0 \<le> y then PInf else MInf)"
| "fdiv MInf (Fin y) = (if 0 \<le> y then MInf else PInf)"
| "fdiv PInf PInf = NaN"
| "fdiv PInf MInf = NaN"
| "fdiv MInf PInf = NaN"
| "fdiv MInf MInf = NaN"

fun fexp :: "fl \<Rightarrow> fl" where
  "fexp (Fin x) = Fin (exp x)"
| "fexp PInf = PInf"
| "fexp MInf = Fin 0"
| "fexp NaN = NaN"

fun flog :: "fl \<Rightarrow> fl" where
  "flog (Fin x) = (if 0 < x then Fin (ln x) else if x = 0 then MInf else NaN)"
| "flog PInf = PInf"
| "flog MInf = NaN"
| "flog NaN = NaN"

section \<open>The sigmoid fit\<close>

text \<open>
  \<^verbatim>\<open>fit_sigmoid(Sb,L,kb)\<close> returns the closure \<^verbatim>\<open>S\<close>; the model is the curried
  function, \<open>fit_sigmoid Sb L kb\<close> being the closure.
\<close>

definition sigmoid :: "fl \<Rightarrow> fl" where
  "sigmoid k = fdiv (Fin 1) (fadd (Fin 1) (fexp (fneg k)))"

definition inv_sig :: "fl \<Rightarrow> fl" where
  "inv_sig s = flog (fdiv s (fsub (Fin 1) s))"

definition fit_sigmoid :: "fl \<Rightarrow> fl \<Rightarrow> fl \<Rightarrow> fl \<Rightarrow> fl" where
  "fit_sigmoid Sb L kb =
     (let a = fdiv (Fin 1) L;
          b = inv_sig Sb
      in (\<lambda>k. sigmoid (fadd b (fmul a (fsub k kb)))))"

section \<open>Arrays\<close>

text \<open>
  A vector is the list of its entries and a matrix the list of its rows. The operations
  are those of numpy on arrays of conforming shapes; a matrix is read as a nonempty list
  of rows of one length.
\<close>

type_synonym vec = "fl list"
type_synonym mat = "fl list list"

definition fsum :: "fl list \<Rightarrow> fl" where
  "fsum xs = foldr fadd xs (Fin 0)"

definition dot :: "vec \<Rightarrow> vec \<Rightarrow> fl" where
  "dot u v = fsum (map2 fmul u v)"

text \<open>\<^verbatim>\<open>A @ B\<close>, \<^verbatim>\<open>A @ v\<close>, \<^verbatim>\<open>A.T\<close> is \<^const>\<open>transpose\<close>.\<close>

definition matmul :: "mat \<Rightarrow> mat \<Rightarrow> mat" where
  "matmul A B = map (\<lambda>r. map (dot r) (transpose B)) A"

definition matvec :: "mat \<Rightarrow> vec \<Rightarrow> vec" where
  "matvec A v = map (\<lambda>r. dot r v) A"

definition vadd :: "vec \<Rightarrow> vec \<Rightarrow> vec" where
  "vadd u v = map2 fadd u v"

definition vsub :: "vec \<Rightarrow> vec \<Rightarrow> vec" where
  "vsub u v = map2 fsub u v"

definition madd :: "mat \<Rightarrow> mat \<Rightarrow> mat" where
  "madd A B = map2 vadd A B"

definition msub :: "mat \<Rightarrow> mat \<Rightarrow> mat" where
  "msub A B = map2 vsub A B"

text \<open>\<^verbatim>\<open>c*A\<close>, \<^verbatim>\<open>A*c\<close> and \<^verbatim>\<open>A/c\<close> for a scalar \<^verbatim>\<open>c\<close>.\<close>

definition smul :: "fl \<Rightarrow> mat \<Rightarrow> mat" where
  "smul c A = map (map (fmul c)) A"

definition muls :: "mat \<Rightarrow> fl \<Rightarrow> mat" where
  "muls A c = map (map (\<lambda>x. fmul x c)) A"

definition divs :: "mat \<Rightarrow> fl \<Rightarrow> mat" where
  "divs A c = map (map (\<lambda>x. fdiv x c)) A"

definition eye :: "nat \<Rightarrow> mat" where
  "eye n = map (\<lambda>i. map (\<lambda>j. if i = j then Fin 1 else Fin 0) [0..<n]) [0..<n]"

fun diag :: "mat \<Rightarrow> vec" where
  "diag [] = []"
| "diag ([] # rs) = []"
| "diag ((x # r) # rs) = x # diag (map tl rs)"

definition trace :: "mat \<Rightarrow> fl" where
  "trace A = fsum (diag A)"

text \<open>\<^verbatim>\<open>mean(xx,0)\<close>: the mean over the rows; \<^verbatim>\<open>xx - muC\<close> subtracts the vector from
  every row; \<^verbatim>\<open>A.ravel(order='F')\<close> lists the entries column after column.\<close>

definition mean0 :: "mat \<Rightarrow> vec" where
  "mean0 xx = map (\<lambda>c. fdiv (fsum c) (Fin (real (length xx)))) (transpose xx)"

definition rows_sub :: "mat \<Rightarrow> vec \<Rightarrow> mat" where
  "rows_sub xx v = map (\<lambda>r. vsub r v) xx"

definition ravel_F :: "mat \<Rightarrow> vec" where
  "ravel_F A = concat (transpose A)"

text \<open>
  \<^verbatim>\<open>np.cov(X)\<close>: every row of \<^verbatim>\<open>X\<close> is a variable and every column an observation.
  numpy subtracts from each row its average, takes \<^verbatim>\<open>fact = X.shape[1] - 1\<close>, replaced
  by \<^verbatim>\<open>0.0\<close> when not positive, and returns \<^verbatim>\<open>dot(X, X.T) * (1/fact)\<close>.
\<close>

definition ncols :: "mat \<Rightarrow> nat" where
  "ncols X = (case X of [] \<Rightarrow> 0 | r # _ \<Rightarrow> length r)"

definition np_cov :: "mat \<Rightarrow> mat" where
  "np_cov X =
     (let Xc = map (\<lambda>r. map (\<lambda>x. fsub x (fdiv (fsum r) (Fin (real (length r))))) r) X;
          fact = (if ncols X \<le> 1 then 0 else real (ncols X) - 1)
      in muls (matmul Xc (transpose Xc)) (fdiv (Fin 1) (Fin fact)))"

section \<open>The collaborators\<close>

text \<open>
  \<^verbatim>\<open>baseline.py\<close> receives the hidden Markov model \<^verbatim>\<open>HMM\<close> (the dynamics
  \<^verbatim>\<open>Dyn\<close>, the observation operator \<^verbatim>\<open>Obs\<close> with its linearisation and noise
  covariance, the ticker \<^verbatim>\<open>HMM.t.ticker\<close>, the initial distribution \<^verbatim>\<open>X0\<close>) and
  calls helpers of the package that are defined elsewhere: \<^verbatim>\<open>mrdiv\<close>,
  \<^verbatim>\<open>estimate_corr_length\<close>, \<^verbatim>\<open>center\<close>, \<^verbatim>\<open>CovMat\<close>. All of them are parameters
  of the model, collected in one record. The ticker yields the tuples
  \<^verbatim>\<open>(k,kObs,t,dt)\<close>; \<^verbatim>\<open>progbar\<close> only wraps it.
\<close>

datatype nparg = Scalar fl | Vec vec

type_synonym tick = "nat \<times> nat option \<times> fl \<times> fl"

record env =
  Dyn :: "vec \<Rightarrow> fl \<Rightarrow> fl \<Rightarrow> vec"
  Dyn_M :: nat
  Obs :: "vec \<Rightarrow> fl \<Rightarrow> vec"
  Obs_linear :: "nparg \<Rightarrow> fl \<Rightarrow> mat"
  Obs_noise_C_full :: mat
  ticker :: "tick list"
  X0_mu :: vec
  X0_C_full :: mat
  mrdiv :: "mat \<Rightarrow> mat \<Rightarrow> mat"
  estimate_corr_length :: "vec \<Rightarrow> fl"
  center :: "mat \<Rightarrow> mat \<times> vec"
  CovMat :: "mat \<Rightarrow> string \<Rightarrow> mat"

text \<open>
  The diagnostic sink: \<^verbatim>\<open>stats.assess(k,kObs,f_a_u,mu=...,Cov=...)\<close> is recorded with
  its arguments (\<open>None\<close> for an argument left out), in the order of the calls.
\<close>

record assessment =
  a_k :: nat
  a_kObs :: "nat option"
  a_fau :: "string option"
  a_mu :: vec
  a_Cov :: mat

record stats =
  assessments :: "assessment list"
  trHK :: "fl list"

definition assess :: "stats \<Rightarrow> nat \<Rightarrow> nat option \<Rightarrow> string option \<Rightarrow> vec \<Rightarrow> mat \<Rightarrow> stats" where
  "assess st k kObs fau m C =
     st\<lparr>assessments := assessments st @
          [\<lparr>a_k = k, a_kObs = kObs, a_fau = fau, a_mu = m, a_Cov = C\<rparr>]\<rparr>"

datatype error = AssimFailedError string | IndexError | TypeError

text \<open>The \<^verbatim>\<open>for\<close> loop over the ticker: an exception in the body ends it, and the
  state reached so far stays as it is.\<close>

fun for_each :: "('s \<Rightarrow> 't \<Rightarrow> error option \<times> 's) \<Rightarrow> 't list \<Rightarrow> 's \<Rightarrow> error option \<times> 's" where
  "for_each body [] s = (None, s)"
| "for_each body (x # xs) s =
     (case body s x of
        (None, s') \<Rightarrow> for_each body xs s'
      | (Some e, s') \<Rightarrow> (Some e, s'))"

section \<open>Climatology\<close>

definition Climatology :: "env \<Rightarrow> mat \<Rightarrow> vec list \<Rightarrow> stats \<Rightarrow> stats" where
  "Climatology hmm xx yy st =
     (let muC = mean0 xx;
          AC = rows_sub xx muC;
          PC = CovMat hmm AC ''A'';
          st1 = assess st 0 None None muC PC;
          st2 = st1\<lparr>trHK := map (\<lambda>_. Fin 0) (trHK st1)\<rparr>
      in fold (\<lambda>(k, kObs, _, _) s.
                 assess s k kObs (Some (if kObs = None then ''u'' else ''fau'')) muC PC)
           (ticker hmm) st2)"

section \<open>Optimal interpolation\<close>

text \<open>The local variables of the assimilator of \<^verbatim>\<open>OptInterp\<close>.\<close>

record oi_locals =
  oi_H :: mat
  oi_muC :: vec
  oi_AC :: mat
  oi_PC :: mat
  oi_KG :: mat
  oi_P :: mat
  oi_L :: fl
  oi_SM :: "fl \<Rightarrow> fl"
  oi_mu :: vec

definition oi_msg :: string where
  "oi_msg = ''For speed, only time-independent H is supported.''"

text \<open>Lines 49 to 67: everything before the first assessment.\<close>

definition OptInterp_setup :: "env \<Rightarrow> mat \<Rightarrow> error + oi_locals" where
  "OptInterp_setup hmm xx =
     (let H = Obs_linear hmm (Scalar NaN) NaN
      in if \<not> list_all (list_all isfinite) H then Inl (AssimFailedError oi_msg)
         else
           let muC = mean0 xx;
               AC = rows_sub xx muC;
               PC = divs (matmul (transpose AC) AC) (Fin (real_of_int (int (length xx) - 1)));
               KG = mrdiv hmm (matmul PC (transpose H))
                      (madd (matmul (matmul H PC) (transpose H)) (Obs_noise_C_full hmm));
               P = matmul (msub (eye (Dyn_M hmm)) (matmul KG H)) PC;
               L = estimate_corr_length hmm (ravel_F AC);
               SM = fit_sigmoid (fdiv (trace P) (trace (smul (Fin 2) PC))) L (Fin 0)
           in Inr \<lparr>oi_H = H, oi_muC = muC, oi_AC = AC, oi_PC = PC, oi_KG = KG, oi_P = P,
                   oi_L = L, oi_SM = SM, oi_mu = muC\<rparr>)"

text \<open>The body of the loop, lines 71 to 79. \<^verbatim>\<open>yy[kObs]\<close> raises \<^verbatim>\<open>IndexError\<close>
  out of range, after the forecast assessment has been recorded.\<close>

definition OptInterp_tick :: "env \<Rightarrow> vec list \<Rightarrow> oi_locals \<times> stats \<Rightarrow> tick \<Rightarrow>
    error option \<times> oi_locals \<times> stats" where
  "OptInterp_tick hmm yy = (\<lambda>(l, st) (k, kObs, t, dt).
     let mu1 = Dyn hmm (oi_mu l) (fsub t dt) dt
     in case kObs of
          None \<Rightarrow>
            (None, l\<lparr>oi_mu := mu1\<rparr>,
             assess st k None None mu1
               (muls (smul (Fin 2) (oi_PC l)) (oi_SM l (Fin (real k)))))
        | Some j \<Rightarrow>
            let st1 = assess st k (Some j) (Some ''f'') (oi_muC l) (oi_PC l)
            in if j < length yy then
                 let mu2 = vadd (oi_muC l)
                             (matvec (oi_KG l) (vsub (yy ! j) (Obs hmm (oi_muC l) t)));
                     SM2 = fit_sigmoid (fdiv (trace (oi_P l)) (trace (oi_PC l))) (oi_L l)
                             (Fin (real k))
                 in (None, l\<lparr>oi_mu := mu2, oi_SM := SM2\<rparr>,
                     assess st1 k (Some j) None mu2
                       (muls (smul (Fin 2) (oi_PC l)) (SM2 (Fin (real k)))))
               else (Some IndexError, l\<lparr>oi_mu := mu1\<rparr>, st1))"

text \<open>The assimilator. It returns nothing; the model returns the exception raised, if
  any, the local variables at the end, and the sink.\<close>

definition OptInterp :: "env \<Rightarrow> mat \<Rightarrow> vec list \<Rightarrow> stats \<Rightarrow>
    error option \<times> oi_locals option \<times> stats" where
  "OptInterp hmm xx yy st =
     (case OptInterp_setup hmm xx of
        Inl e \<Rightarrow> (Some e, None, st)
      | Inr l \<Rightarrow>
          (case for_each (OptInterp_tick hmm yy) (ticker hmm)
                  (l, assess st 0 None None (oi_mu l) (oi_PC l)) of
             (e, l', st') \<Rightarrow> (e, Some l', st')))"

section \<open>3D-Var\<close>

text \<open>
  \<^verbatim>\<open>Var3D(B,xB)\<close> returns a closure over its arguments; the assimilator declares
  \<^verbatim>\<open>B\<close> nonlocal and assigns to it. The closed-over cells are a record that the
  assimilator takes and returns. \<^verbatim>\<open>B\<close> is \<^verbatim>\<open>None\<close>, a string or an array;
  \<^verbatim>\<open>B in (None,'clim')\<close> is read as the test whether it is \<^verbatim>\<open>None\<close> or the string
  \<^verbatim>\<open>'clim'\<close>, and \<^verbatim>\<open>B *= xB\<close> on any other string raises \<^verbatim>\<open>TypeError\<close>.
\<close>

datatype B_arg = B_None | B_str string | B_array mat

record var3d_cfg =
  cfg_B :: B_arg
  cfg_xB :: fl

record v3_locals =
  v3_B :: mat
  v3_CC :: mat
  v3_L :: fl
  v3_P :: mat
  v3_SM :: "fl \<Rightarrow> fl"
  v3_mu :: vec
  v3_H :: "mat option"
  v3_KG :: "mat option"

text \<open>Lines 95 to 99: the assignment to the nonlocal \<^verbatim>\<open>B\<close>.\<close>

definition Var3D_B :: "var3d_cfg \<Rightarrow> mat \<Rightarrow> error + mat" where
  "Var3D_B cfg xx =
     (case cfg_B cfg of
        B_None \<Rightarrow> Inr (muls (np_cov (transpose xx)) (cfg_xB cfg))
      | B_str s \<Rightarrow>
          if s = ''clim'' then Inr (muls (np_cov (transpose xx)) (cfg_xB cfg))
          else Inl TypeError
      | B_array A \<Rightarrow> Inr (muls A (cfg_xB cfg)))"

text \<open>Lines 101 to 108.\<close>

definition Var3D_setup :: "env \<Rightarrow> mat \<Rightarrow> mat \<Rightarrow> v3_locals" where
  "Var3D_setup hmm B xx =
     (let CC = smul (Fin 2) (np_cov (transpose xx));
          L = estimate_corr_length hmm (ravel_F (fst (center hmm xx)));
          P = X0_C_full hmm;
          SM = fit_sigmoid (fdiv (trace P) (trace CC)) L (Fin 0)
      in \<lparr>v3_B = B, v3_CC = CC, v3_L = L, v3_P = P, v3_SM = SM, v3_mu = X0_mu hmm,
          v3_H = None, v3_KG = None\<rparr>)"

text \<open>The body of the loop, lines 112 to 128.\<close>

definition Var3D_tick :: "env \<Rightarrow> vec list \<Rightarrow> v3_locals \<times> stats \<Rightarrow> tick \<Rightarrow>
    error option \<times> v3_locals \<times> stats" where
  "Var3D_tick hmm yy = (\<lambda>(l, st) (k, kObs, t, dt).
     let mu1 = Dyn hmm (v3_mu l) (fsub t dt) dt;
         P1 = muls (v3_CC l) (v3_SM l (Fin (real k)))
     in case kObs of
          None \<Rightarrow> (None, l\<lparr>v3_mu := mu1, v3_P := P1\<rparr>, assess st k None None mu1 P1)
        | Some j \<Rightarrow>
            let st1 = assess st k (Some j) (Some ''f'') mu1 P1;
                H = Obs_linear hmm (Vec mu1) t;
                KG = mrdiv hmm (matmul (v3_B l) (transpose H))
                       (madd (matmul (matmul H (v3_B l)) (transpose H)) (Obs_noise_C_full hmm))
            in if j < length yy then
                 let mu2 = vadd mu1 (matvec KG (vsub (yy ! j) (Obs hmm mu1 t)));
                     P2 = matmul (msub (eye (Dyn_M hmm)) (matmul KG H)) (v3_B l);
                     SM2 = fit_sigmoid (fdiv (trace P2) (trace (v3_CC l))) (v3_L l)
                             (Fin (real k))
                 in (None,
                     l\<lparr>v3_mu := mu2, v3_P := P2, v3_SM := SM2, v3_H := Some H, v3_KG := Some KG\<rparr>,
                     assess st1 k (Some j) None mu2 P2)
               else (Some IndexError,
                     l\<lparr>v3_mu := mu1, v3_P := P1, v3_H := Some H, v3_KG := Some KG\<rparr>, st1))"

text \<open>The assimilator: the exception raised, if any, the closed-over cells after the
  call, the local variables at the end, and the sink.\<close>

definition Var3D :: "var3d_cfg \<Rightarrow> env \<Rightarrow> mat \<Rightarrow> vec list \<Rightarrow> stats \<Rightarrow>
    error option \<times> var3d_cfg \<times> v3_locals option \<times> stats" where
  "Var3D cfg hmm xx yy st =
     (case Var3D_B cfg xx of
        Inl e \<Rightarrow> (Some e, cfg, None, st)
      | Inr B \<Rightarrow>
          (let l = Var3D_setup hmm B xx
           in case for_each (Var3D_tick hmm yy) (ticker hmm)
                     (l, assess st 0 None None (v3_mu l) (v3_P l)) of
                (e, l', st') \<Rightarrow> (e, cfg\<lparr>cfg_B := B_array B\<rparr>, Some l', st')))"

section \<open>What the theorems speak about\<close>

text \<open>An assessment without its covariance, and the part of a run that is not a
  covariance handed to the sink: the exception, the gain, the mean and the assessments
  without their covariances (for \<^verbatim>\<open>Var3D\<close> also the closed-over cells).\<close>

definition no_cov :: "assessment \<Rightarrow> nat \<times> nat option \<times> string option \<times> vec" where
  "no_cov a = (a_k a, a_kObs a, a_fau a, a_mu a)"

definition oi_view :: "error option \<times> oi_locals option \<times> stats \<Rightarrow>
    error option \<times> mat option \<times> vec option \<times> (nat \<times> nat option \<times> string option \<times> vec) list" where
  "oi_view r = (case r of (e, lo, st) \<Rightarrow>
     (e, map_option oi_KG lo, map_option oi_mu lo, map no_cov (assessments st)))"

definition v3_view :: "error option \<times> var3d_cfg \<times> v3_locals option \<times> stats \<Rightarrow>
    error option \<times> var3d_cfg \<times> mat option option \<times> vec option \<times>
    (nat \<times> nat option \<times> string option \<times> vec) list" where
  "v3_view r = (case r of (e, cfg, lo, st) \<Rightarrow>
     (e, cfg, map_option v3_KG lo, map_option v3_mu lo, map no_cov (assessments st)))"



definition zeros :: "nat \<Rightarrow> nat \<Rightarrow> mat" where
  "zeros n m = replicate n (replicate m (Fin 0))"

section \<open>Concrete runs\<close>

text \<open>
  Modelled from the spec: \<^verbatim>\<open>mrdiv\<close>, the right matrix division \<^verbatim>\<open>b/A\<close> of the
  package, is not in \<^verbatim>\<open>baseline.py\<close>. The specification asks for a division backed
  by the pseudo-inverse, \<open>b A\<^sup>+\<close>. It is written out here for systems of order one and
  two, the only ones in the concrete runs below: the inverse where the determinant is not
  zero, the zero matrix for the zero matrix, and \<open>A\<^sup>T / \<parallel>A\<parallel>\<^sup>2\<close> (Frobenius norm) for a
  matrix of rank one. Everywhere else \<^verbatim>\<open>mrdiv\<close> stays a parameter.
\<close>

fun pinv_small :: "mat \<Rightarrow> mat" where
  "pinv_small [[a]] = [[if a = Fin 0 then Fin 0 else fdiv (Fin 1) a]]"
| "pinv_small [[a, b], [c, d]] =
     (let det = fsub (fmul a d) (fmul b c);
          n = fadd (fadd (fmul a a) (fmul b b)) (fadd (fmul c c) (fmul d d))
      in if det \<noteq> Fin 0 then
           [[fdiv d det, fdiv (fneg b) det], [fdiv (fneg c) det, fdiv a det]]
         else if n = Fin 0 then [[Fin 0, Fin 0], [Fin 0, Fin 0]]
         else [[fdiv a n, fdiv c n], [fdiv b n, fdiv d n]])"

definition mrdiv_small :: "mat \<Rightarrow> mat \<Rightarrow> mat" where
  "mrdiv_small b A = matmul b (pinv_small A)"

text \<open>
  A truth trajectory of four states in the plane, one observation of the whole state at
  the second of two ticks, a model that doubles the state, and observation noise of
  variance four. \<open>ex_perfect\<close> is the same system observed without noise.
\<close>

definition ex_xx :: mat where
  "ex_xx = [[Fin 1, Fin 1], [Fin (- 1), Fin 1], [Fin 1, Fin (- 1)], [Fin (- 1), Fin (- 1)]]"

definition ex_yy :: "vec list" where
  "ex_yy = [[Fin 4, Fin 8]]"

definition ex_stats :: stats where
  "ex_stats = \<lparr>assessments = [], trHK = [Fin 1]\<rparr>"

definition ex_hmm :: env where
  "ex_hmm = \<lparr>Dyn = (\<lambda>x t dt. map (fmul (Fin 2)) x), Dyn_M = 2,
     Obs = (\<lambda>x t. x), Obs_linear = (\<lambda>x t. eye 2),
     Obs_noise_C_full = [[Fin 4, Fin 0], [Fin 0, Fin 4]],
     ticker = [(1, None, Fin 1, Fin 1), (2, Some 0, Fin 2, Fin 1)],
     X0_mu = [Fin 0, Fin 0], X0_C_full = eye 2,
     mrdiv = mrdiv_small, estimate_corr_length = (\<lambda>v. Fin 1),
     center = (\<lambda>xx. (rows_sub xx (mean0 xx), mean0 xx)),
     CovMat = (\<lambda>A s. divs (matmul (transpose A) A) (Fin (real_of_int (int (length A) - 1))))\<rparr>"

definition ex_perfect :: env where
  "ex_perfect = ex_hmm\<lparr>Obs_noise_C_full := zeros 2 2\<rparr>"

text \<open>
  A truth trajectory whose second component never moves, so that its covariance is
  singular; perfect observations, a model that leaves the state as it is, one tick with an
  observation, and an initial mean that is off in the second component.
\<close>

definition flat_xx :: mat where
  "flat_xx = [[Fin 0, Fin 5], [Fin 2, Fin 5]]"

definition flat_yy :: "vec list" where
  "flat_yy = [[Fin 2, Fin 5]]"

definition flat_hmm :: env where
  "flat_hmm = ex_perfect\<lparr>Dyn := (\<lambda>x t dt. x), ticker := [(1, Some 0, Fin 1, Fin 1)],
     X0_mu := [Fin 0, Fin 7]\<rparr>"

section \<open>Evaluating the concrete runs\<close>

lemma one_plus_exp_neq0 [simp]: "1 + exp (x::real) \<noteq> 0"
  using exp_gt_zero [of x] by linarith

lemma eye2: "eye 2 = [[Fin 1, Fin 0], [Fin 0, Fin 1]]"
  by (simp add: eye_def upt_rec)

lemma eye_Suc_Suc_0: "eye (Suc (Suc 0)) = [[Fin 1, Fin 0], [Fin 0, Fin 1]]"
  by (simp add: eye_def upt_rec)

lemma zeros22: "zeros 2 2 = [[Fin 0, Fin 0], [Fin 0, Fin 0]]"
  by (simp add: zeros_def numeral_2_eq_2)

lemmas arr_defs = matmul_def matvec_def dot_def fsum_def vadd_def vsub_def madd_def msub_def
  smul_def muls_def divs_def trace_def mean0_def rows_sub_def ravel_F_def ncols_def
  np_cov_def fsub_def inf_of_def mrdiv_small_def

lemmas sigmoid_defs = fit_sigmoid_def sigmoid_def inv_sig_def fsub_def Let_def

lemmas run_defs = zeros22 OptInterp_def OptInterp_setup_def OptInterp_tick_def Var3D_def
  Var3D_B_def Var3D_setup_def Var3D_tick_def assess_def ex_hmm_def ex_perfect_def flat_hmm_def
  ex_xx_def ex_yy_def flat_xx_def flat_yy_def ex_stats_def eye2 eye_Suc_Suc_0 arr_defs Let_def
  fit_sigmoid_def sigmoid_def inv_sig_def exp_minus


lemma flat_cov: "np_cov (transpose flat_xx) = [[Fin 2, Fin 0], [Fin 0, Fin 0]]"
  by (simp add: flat_xx_def arr_defs Let_def)

section \<open>The sigmoid\<close>










text \<open>
  C7 says that an anchor at or outside the open interval \<open>(0,1)\<close> is clamped to a small
  epsilon inside it, so that the curve is finite everywhere. The code has no clamp. With
  \<open>Sb = 2\<close> the logit is \<^verbatim>\<open>nan\<close> and so is the curve; with \<open>Sb = 0\<close> the logit
  is \<^verbatim>\<open>-inf\<close> and the curve is 0 at the anchor, not a small positive number.
\<close>

theorem fit_sigmoid_clamp_counterexample:
  "inv_sig (Fin 2) = NaN
   \<and> \<not> isfinite (fit_sigmoid (Fin 2) (Fin 1) (Fin 0) (Fin 0))
   \<and> inv_sig (Fin 0) = MInf
   \<and> fit_sigmoid (Fin 0) (Fin 1) (Fin 0) (Fin 0) = Fin 0"
  by (simp add: sigmoid_defs)

text \<open>
  C7 as amended. The fit does not clamp. The logit of 0 is \<^verbatim>\<open>-inf\<close> and the logit of
  1 is \<^verbatim>\<open>inf\<close>; both are propagated, and for finite \<open>k\<close>, \<open>kb\<close> and a finite
  \<open>L \<noteq> 0\<close> the curve is the constant 0, respectively 1. For \<open>Sb < 0\<close> or \<open>Sb > 1\<close> the
  logit is \<^verbatim>\<open>nan\<close> and the curve is \<^verbatim>\<open>nan\<close> at every \<open>k\<close>, whatever \<open>L\<close> and
  \<open>kb\<close>.
\<close>

theorem fit_sigmoid_boundary:
  "inv_sig (Fin 0) = MInf \<and> inv_sig (Fin 1) = PInf
   \<and> (L \<noteq> 0 \<longrightarrow> fit_sigmoid (Fin 0) (Fin L) (Fin kb) (Fin k) = Fin 0
               \<and> fit_sigmoid (Fin 1) (Fin L) (Fin kb) (Fin k) = Fin 1)
   \<and> (Sb < 0 \<or> 1 < Sb \<longrightarrow> inv_sig (Fin Sb) = NaN \<and> fit_sigmoid (Fin Sb) L' kb' k' = NaN)"
proof -
  have "fadd NaN x = NaN" for x by (cases x) simp_all
  moreover have "Sb < 0 \<or> 1 < Sb \<Longrightarrow> inv_sig (Fin Sb) = NaN"
    by (auto simp: inv_sig_def fsub_def inf_of_def divide_less_0_iff zero_less_divide_iff)
  ultimately show ?thesis
    by (auto simp: fit_sigmoid_def sigmoid_def Let_def)
       (simp_all add: inv_sig_def fsub_def inf_of_def)
qed

theorem fit_sigmoid_boundary_witness:
  "fit_sigmoid (Fin 0) (Fin 2) (Fin 3) (Fin 7) = Fin 0
   \<and> fit_sigmoid (Fin 1) (Fin 2) (Fin 3) (Fin 7) = Fin 1
   \<and> inv_sig (Fin (- 1)) = NaN \<and> fit_sigmoid (Fin (- 1)) (Fin 2) (Fin 3) (Fin 7) = NaN"
  using fit_sigmoid_boundary [of 2 3 7 "- 1" "Fin 2" "Fin 3" "Fin 7"] by simp

section \<open>The loop over the ticker\<close>

text \<open>The state after a prefix of the ticks is the state the loop passes through: the
  loop over \<open>xs @ ys\<close> continues from where the loop over \<open>xs\<close> ends.\<close>

lemma for_each_prefix:
  "for_each body (xs @ ys) s =
     (case for_each body xs s of
        (None, s') \<Rightarrow> for_each body ys s'
      | (Some e, s') \<Rightarrow> (Some e, s'))"
  by (induction xs arbitrary: s) (auto split: prod.splits option.splits)

lemma for_each_append:
  "for_each body (xs @ [x]) s =
     (case for_each body xs s of (None, s') \<Rightarrow> body s' x | (Some e, s') \<Rightarrow> (Some e, s'))"
  by (induction xs arbitrary: s) (auto split: prod.splits option.splits)

lemma for_each_rel:
  assumes step: "\<And>s s' x. R s s' \<Longrightarrow>
            fst (b s x) = fst (b' s' x) \<and> R (snd (b s x)) (snd (b' s' x))"
  shows "R s s' \<Longrightarrow> fst (for_each b xs s) = fst (for_each b' xs s')
           \<and> R (snd (for_each b xs s)) (snd (for_each b' xs s'))"
proof (induction xs arbitrary: s s')
  case Nil
  then show ?case by simp
next
  case (Cons x xs)
  from step [OF Cons.prems, of x]
  have e: "fst (b s x) = fst (b' s' x)" and r: "R (snd (b s x)) (snd (b' s' x))" by simp_all
  show ?case
  proof (cases "fst (b s x)")
    case None
    with e have "fst (b' s' x) = None" by simp
    with None Cons.IH [OF r] show ?thesis
      by (cases "b s x"; cases "b' s' x") simp
  next
    case (Some a)
    with e have "fst (b' s' x) = Some a" by simp
    with Some r show ?thesis
      by (cases "b s x"; cases "b' s' x") simp
  qed
qed

lemma for_each_inv:
  assumes step: "\<And>s x. I s \<Longrightarrow> I (snd (b s x))"
  shows "I s \<Longrightarrow> I (snd (for_each b xs s))"
proof (induction xs arbitrary: s)
  case Nil
  then show ?case by simp
next
  case (Cons x xs)
  from step [OF Cons.prems, of x] have i: "I (snd (b s x))" .
  show ?case
  proof (cases "b s x")
    case (Pair e s1)
    with i Cons.IH [of s1] show ?thesis by (cases e) simp_all
  qed
qed

lemma for_each_err:
  assumes step: "\<And>s x. fst (b s x) = None \<or> fst (b s x) = Some IndexError"
  shows "fst (for_each b xs s) = None \<or> fst (for_each b xs s) = Some IndexError"
proof (induction xs arbitrary: s)
  case Nil
  then show ?case by simp
next
  case (Cons x xs)
  show ?case
  proof (cases "b s x")
    case (Pair e s1)
    with step [of s x] Cons.IH [of s1] show ?thesis by (cases e) auto
  qed
qed

section \<open>Climatology: the state estimate never moves\<close>

lemma fold_assess:
  "assessments (fold (\<lambda>(k, kObs, _, _) s. assess s k kObs (g kObs) m C) ts st)
     = assessments st @ map (\<lambda>(k, kObs, _, _). \<lparr>a_k = k, a_kObs = kObs, a_fau = g kObs, a_mu = m, a_Cov = C\<rparr>) ts"
  by (induction ts arbitrary: st) (auto simp: assess_def)

lemma fold_assess_trHK:
  "trHK (fold (\<lambda>(k, kObs, _, _) s. assess s k kObs (g kObs) m C) ts st) = trHK st"
  by (induction ts arbitrary: st) (auto simp: assess_def)

lemma Climatology_assessments:
  "assessments (Climatology hmm xx yy st) =
     assessments st @
     \<lparr>a_k = 0, a_kObs = None, a_fau = None, a_mu = mean0 xx,
       a_Cov = CovMat hmm (rows_sub xx (mean0 xx)) ''A''\<rparr> #
     map (\<lambda>(k, kObs, _, _). \<lparr>a_k = k, a_kObs = kObs,
             a_fau = Some (if kObs = None then ''u'' else ''fau''), a_mu = mean0 xx,
             a_Cov = CovMat hmm (rows_sub xx (mean0 xx)) ''A''\<rparr>) (ticker hmm)"
  by (simp add: Climatology_def Let_def fold_assess) (simp add: assess_def)

text \<open>
  C8. Every assessment a Climatology run hands to the sink, the one at initialisation and
  the one of every tick, carries the climatological mean \<^verbatim>\<open>muC = mean(xx,0)\<close> and the
  one climatological covariance \<^verbatim>\<open>PC = CovMat(xx - muC,'A')\<close>; there is one assessment
  per tick besides the first, and the observations \<^verbatim>\<open>yy\<close> have no influence on the
  run.
\<close>

theorem Climatology_constant:
  "map a_mu (drop (length (assessments st)) (assessments (Climatology hmm xx yy st)))
     = replicate (Suc (length (ticker hmm))) (mean0 xx)
   \<and> map a_Cov (drop (length (assessments st)) (assessments (Climatology hmm xx yy st)))
     = replicate (Suc (length (ticker hmm))) (CovMat hmm (rows_sub xx (mean0 xx)) ''A'')
   \<and> Climatology hmm xx yy' st = Climatology hmm xx yy st"
proof -
  have "map (a_mu \<circ> (\<lambda>(k, kObs, _, _). \<lparr>a_k = k, a_kObs = kObs, a_fau = g kObs, a_mu = m,
             a_Cov = C\<rparr>)) ts = replicate (length ts) m" for g m C and ts :: "tick list"
    by (induction ts) auto
  moreover have "map (a_Cov \<circ> (\<lambda>(k, kObs, _, _). \<lparr>a_k = k, a_kObs = kObs, a_fau = g kObs,
             a_mu = m, a_Cov = C\<rparr>)) ts = replicate (length ts) C"
    for g m C and ts :: "tick list"
    by (induction ts) auto
  ultimately show ?thesis
    by (simp add: Climatology_assessments) (simp add: Climatology_def)
qed

section \<open>Optimal interpolation\<close>

lemma OptInterp_tick_frame:
  "snd (OptInterp_tick hmm yy (l, st) tk) = (l', st') \<Longrightarrow>
     l' = l\<lparr>oi_mu := oi_mu l', oi_SM := oi_SM l'\<rparr>"
  by (cases tk) (auto simp: OptInterp_tick_def Let_def split: option.splits if_splits)

lemma OptInterp_tick_err:
  "fst (OptInterp_tick hmm yy s tk) = None \<or> fst (OptInterp_tick hmm yy s tk) = Some IndexError"
  by (cases tk; cases s) (auto simp: OptInterp_tick_def Let_def split: option.splits if_splits)

lemma OptInterp_loop_frame:
  assumes "for_each (OptInterp_tick hmm yy) ts (l0, st0) = (e, l, st)"
  shows "oi_H l = oi_H l0 \<and> oi_muC l = oi_muC l0 \<and> oi_AC l = oi_AC l0 \<and> oi_PC l = oi_PC l0
     \<and> oi_KG l = oi_KG l0 \<and> oi_P l = oi_P l0 \<and> oi_L l = oi_L l0"
proof -
  let ?I = "\<lambda>s. oi_H (fst s) = oi_H l0 \<and> oi_muC (fst s) = oi_muC l0 \<and> oi_AC (fst s) = oi_AC l0
     \<and> oi_PC (fst s) = oi_PC l0 \<and> oi_KG (fst s) = oi_KG l0 \<and> oi_P (fst s) = oi_P l0
     \<and> oi_L (fst s) = oi_L l0"
  have "?I (snd (for_each (OptInterp_tick hmm yy) ts (l0, st0)))"
  proof (rule for_each_inv [where I = ?I])
    fix s :: "oi_locals \<times> stats" and x
    assume i: "?I s"
    obtain l1 s1 where s: "s = (l1, s1)" by (cases s)
    obtain l2 s2 where t: "snd (OptInterp_tick hmm yy (l1, s1) x) = (l2, s2)"
      by (cases "snd (OptInterp_tick hmm yy (l1, s1) x)")
    from OptInterp_tick_frame [OF t] have "l2 = l1\<lparr>oi_mu := oi_mu l2, oi_SM := oi_SM l2\<rparr>" .
    then have "oi_H l2 = oi_H l1 \<and> oi_muC l2 = oi_muC l1 \<and> oi_AC l2 = oi_AC l1
       \<and> oi_PC l2 = oi_PC l1 \<and> oi_KG l2 = oi_KG l1 \<and> oi_P l2 = oi_P l1 \<and> oi_L l2 = oi_L l1"
      by (metis oi_locals.select_convs oi_locals.surjective oi_locals.update_convs)
    with i s t show "?I (snd (OptInterp_tick hmm yy s x))" by simp
  qed simp
  with assms show ?thesis by simp
qed


lemma OptInterp_tick_fst:
  "fst (OptInterp_tick hmm yy s (k, kObs, t, dt)) =
     (case kObs of None \<Rightarrow> None | Some j \<Rightarrow> if j < length yy then None else Some IndexError)"
  by (cases s) (auto simp: OptInterp_tick_def Let_def split: option.splits)

lemma OptInterp_setup_Inr:
  assumes "OptInterp_setup hmm xx = Inr l0"
  shows "oi_muC l0 = mean0 xx" and "oi_mu l0 = mean0 xx"
    and "oi_H l0 = Obs_linear hmm (Scalar NaN) NaN"
    and "oi_PC l0 = divs (matmul (transpose (rows_sub xx (mean0 xx))) (rows_sub xx (mean0 xx)))
                      (Fin (real_of_int (int (length xx) - 1)))"
    and "oi_KG l0 = mrdiv hmm (matmul (oi_PC l0) (transpose (oi_H l0)))
           (madd (matmul (matmul (oi_H l0) (oi_PC l0)) (transpose (oi_H l0))) (Obs_noise_C_full hmm))"
    and "list_all (list_all isfinite) (Obs_linear hmm (Scalar NaN) NaN)"
  using assms by (auto simp: OptInterp_setup_def Let_def split: if_splits)

lemma OptInterp_setup_ticker [simp]:
  "OptInterp_setup (hmm\<lparr>ticker := ts\<rparr>) xx = OptInterp_setup hmm xx"
  by (simp add: OptInterp_setup_def Let_def cong: if_cong)

lemma OptInterp_tick_ticker [simp]:
  "OptInterp_tick (hmm\<lparr>ticker := ts\<rparr>) yy = OptInterp_tick hmm yy"
  by (simp add: OptInterp_tick_def Let_def cong: if_cong option.case_cong)


lemma OptInterp_tick_obs:
  assumes "OptInterp_tick hmm yy (l1, s1) (k, Some j, t, dt) = (None, l, st')"
  shows "j < length yy"
    and "oi_mu l = vadd (oi_muC l1) (matvec (oi_KG l1) (vsub (yy ! j) (Obs hmm (oi_muC l1) t)))"
    and "assessments st' = assessments s1 @
           [\<lparr>a_k = k, a_kObs = Some j, a_fau = Some ''f'', a_mu = oi_muC l1, a_Cov = oi_PC l1\<rparr>,
            \<lparr>a_k = k, a_kObs = Some j, a_fau = None, a_mu = oi_mu l,
              a_Cov = muls (smul (Fin 2) (oi_PC l1)) (oi_SM l (Fin (real k)))\<rparr>]"
    and "oi_SM l = fit_sigmoid (fdiv (trace (oi_P l1)) (trace (oi_PC l1))) (oi_L l1) (Fin (real k))"
  using assms by (auto simp: OptInterp_tick_def Let_def assess_def split: if_splits)

lemma OptInterp_errs:
  "fst (for_each (OptInterp_tick hmm yy) ts s) = fst (for_each (OptInterp_tick hmm' yy) ts s')"
  using for_each_rel [where R = "\<lambda>_ _. True" and b = "OptInterp_tick hmm yy"
      and b' = "OptInterp_tick hmm' yy" and s = s and s' = s' and xs = ts]
  by (auto simp: OptInterp_tick_fst)

text \<open>
  C4. At every observation step of OptInterp the mean after the analysis is
  \<^verbatim>\<open>muC + KG@(yy[kObs] - Obs(muC,t))\<close>: the observation operator is applied to the
  climatological mean, which is \<open>H muC\<close> for an operator that is its own linearisation
  \<open>H\<close>. The forecast assessment of that step carries \<^verbatim>\<open>muC\<close> as well,
  and the mean that \<^verbatim>\<open>Dyn\<close> propagated is dropped: with any other model \<open>D\<close> the run
  ends in the same mean. (A run whose last tick is the observation step and that raised
  nothing; \<open>ts\<close> is any sequence of earlier ticks.)
\<close>

theorem OptInterp_analysis_mean:
  assumes "fst (OptInterp (hmm\<lparr>ticker := ts @ [(k, Some j, t, dt)]\<rparr>) xx yy st) = None"
  shows "\<exists>l st'.
      OptInterp (hmm\<lparr>ticker := ts @ [(k, Some j, t, dt)]\<rparr>) xx yy st = (None, Some l, st')
      \<and> j < length yy
      \<and> oi_mu l = vadd (mean0 xx) (matvec (oi_KG l) (vsub (yy ! j) (Obs hmm (mean0 xx) t)))
      \<and> (Obs hmm (mean0 xx) t = matvec (Obs_linear hmm (Scalar NaN) NaN) (mean0 xx) \<longrightarrow>
           oi_mu l = vadd (mean0 xx) (matvec (oi_KG l)
                       (vsub (yy ! j) (matvec (Obs_linear hmm (Scalar NaN) NaN) (mean0 xx)))))
      \<and> a_mu (last (assessments st')) = oi_mu l
      \<and> a_kObs (last (assessments st')) = Some j
      \<and> a_fau (last (assessments st')) = None
      \<and> a_mu (last (butlast (assessments st'))) = mean0 xx
      \<and> a_fau (last (butlast (assessments st'))) = Some ''f''
      \<and> (case OptInterp (hmm\<lparr>Dyn := D, ticker := ts @ [(k, Some j, t, dt)]\<rparr>) xx yy st of
           (e2, lo2, st2) \<Rightarrow> e2 = None \<and> map_option oi_mu lo2 = Some (oi_mu l))"
proof -
  let ?tk = "(k, Some j, t, dt)"
  from assms obtain l0 where s: "OptInterp_setup hmm xx = Inr l0"
    by (auto simp: OptInterp_def split: sum.splits)
  let ?s0 = "(l0, assess st 0 None None (oi_mu l0) (oi_PC l0))"
  obtain e l st' where f0: "for_each (OptInterp_tick hmm yy) (ts @ [?tk]) ?s0 = (e, l, st')"
    by (cases "for_each (OptInterp_tick hmm yy) (ts @ [?tk]) ?s0") auto
  have r: "OptInterp (hmm\<lparr>ticker := ts @ [?tk]\<rparr>) xx yy st = (e, Some l, st')"
    using s f0 by (simp add: OptInterp_def)
  with assms have e: "e = None" by simp
  with f0 have f: "for_each (OptInterp_tick hmm yy) (ts @ [?tk]) ?s0 = (None, l, st')" by simp
  obtain e1 l1 s1 where p: "for_each (OptInterp_tick hmm yy) ts ?s0 = (e1, l1, s1)"
    by (cases "for_each (OptInterp_tick hmm yy) ts ?s0") auto
  from f p have e1: "e1 = None" and tk: "OptInterp_tick hmm yy (l1, s1) ?tk = (None, l, st')"
    by (auto simp: for_each_append split: option.splits)
  note fr1 = OptInterp_loop_frame [OF p] and fr = OptInterp_loop_frame [OF f]
  note o = OptInterp_tick_obs [OF tk]
  have mu: "oi_mu l = vadd (mean0 xx) (matvec (oi_KG l) (vsub (yy ! j) (Obs hmm (mean0 xx) t)))"
    using o(2) fr1 fr OptInterp_setup_Inr(1) [OF s] by simp
  let ?hmm2 = "hmm\<lparr>Dyn := D\<rparr>"
  have s2: "OptInterp_setup ?hmm2 xx = Inr l0"
    using s by (simp add: OptInterp_setup_def Let_def cong: if_cong)
  obtain e2 l2 st2 where f2: "for_each (OptInterp_tick ?hmm2 yy) (ts @ [?tk]) ?s0 = (e2, l2, st2)"
    by (cases "for_each (OptInterp_tick ?hmm2 yy) (ts @ [?tk]) ?s0") auto
  obtain e3 l3 s3 where p2: "for_each (OptInterp_tick ?hmm2 yy) ts ?s0 = (e3, l3, s3)"
    by (cases "for_each (OptInterp_tick ?hmm2 yy) ts ?s0") auto
  from OptInterp_errs [of hmm yy ts ?s0 ?hmm2 ?s0] p p2 e1 have e3: "e3 = None" by simp
  from OptInterp_errs [of hmm yy "ts @ [?tk]" ?s0 ?hmm2 ?s0] f f2 have e2: "e2 = None" by simp
  from f2 p2 e2 e3 have tk2: "OptInterp_tick ?hmm2 yy (l3, s3) ?tk = (None, l2, st2)"
    by (auto simp: for_each_append)
  note fr3 = OptInterp_loop_frame [OF p2]
  have "oi_mu l2 = oi_mu l"
    using OptInterp_tick_obs(2) [OF tk2] o(2) fr1 fr3 by simp
  moreover have "OptInterp (hmm\<lparr>Dyn := D, ticker := ts @ [?tk]\<rparr>) xx yy st = (e2, Some l2, st2)"
    using s2 f2 by (simp add: OptInterp_def)
  ultimately show ?thesis using r e o(1) o(3) mu e2 fr1 OptInterp_setup_Inr(1) [OF s]
    by (simp add: butlast_append)
qed

theorem OptInterp_analysis_mean_witness:
  "\<exists>l st'. OptInterp (ex_hmm\<lparr>ticker := [(1, None, Fin 1, Fin 1)] @ [(2, Some 0, Fin 2, Fin 1)]\<rparr>)
             ex_xx ex_yy ex_stats = (None, Some l, st')
     \<and> oi_mu l = [Fin 1, Fin 2] \<and> a_mu (last (butlast (assessments st'))) = [Fin 0, Fin 0]"
proof -
  have p: "fst (OptInterp (ex_hmm\<lparr>ticker := [(1, None, Fin 1, Fin 1)] @ [(2, Some 0, Fin 2, Fin 1)]\<rparr>)
             ex_xx ex_yy ex_stats) = None"
    by (simp add: run_defs)
  have m: "mean0 ex_xx = [Fin 0, Fin 0]" by (simp add: ex_xx_def arr_defs)
  have k: "map_option oi_KG (fst (snd (OptInterp
      (ex_hmm\<lparr>ticker := [(1, None, Fin 1, Fin 1)] @ [(2, Some 0, Fin 2, Fin 1)]\<rparr>)
             ex_xx ex_yy ex_stats))) = Some [[Fin (1 / 4), Fin 0], [Fin 0, Fin (1 / 4)]]"
    by (simp add: run_defs)
  from OptInterp_analysis_mean [OF p] obtain l st' where
    r: "OptInterp (ex_hmm\<lparr>ticker := [(1, None, Fin 1, Fin 1)] @ [(2, Some 0, Fin 2, Fin 1)]\<rparr>)
             ex_xx ex_yy ex_stats = (None, Some l, st')"
    and mu: "oi_mu l = vadd (mean0 ex_xx) (matvec (oi_KG l) (vsub (ex_yy ! 0)
               (Obs ex_hmm (mean0 ex_xx) (Fin 2))))"
    and f: "a_mu (last (butlast (assessments st'))) = mean0 ex_xx"
    by blast
  from k r have "oi_KG l = [[Fin (1 / 4), Fin 0], [Fin 0, Fin (1 / 4)]]" by simp
  with mu m have "oi_mu l = [Fin 1, Fin 2]"
    by (simp add: ex_yy_def ex_hmm_def arr_defs)
  with r f m show ?thesis by simp
qed

lemma OptInterp_tick_appends:
  "\<exists>ys. assessments (snd (snd (OptInterp_tick hmm yy (l, st) tk))) = assessments st @ ys"
  by (cases tk) (auto simp: OptInterp_tick_def Let_def assess_def split: option.splits)

lemma OptInterp_loop_appends:
  "\<exists>ys. assessments (snd (snd (for_each (OptInterp_tick hmm yy) ts (l, st)))) = assessments st @ ys"
proof -
  let ?I = "\<lambda>s. \<exists>ys. assessments (snd s) = assessments st @ ys"
  have "?I (snd (for_each (OptInterp_tick hmm yy) ts (l, st)))"
  proof (rule for_each_inv [where I = ?I])
    fix s :: "oi_locals \<times> stats" and x
    assume "?I s"
    then obtain ys where ys: "assessments (snd s) = assessments st @ ys" by blast
    from OptInterp_tick_appends [of hmm yy "fst s" "snd s" x]
    obtain zs where "assessments (snd (snd (OptInterp_tick hmm yy s x))) = assessments (snd s) @ zs"
      by auto
    with ys show "?I (snd (OptInterp_tick hmm yy s x))" by simp
  qed simp
  then show ?thesis .
qed

text \<open>
  C5. OptInterp raises \<^verbatim>\<open>AssimFailedError\<close> if and only if the observation operator
  linearised at the placeholder \<^verbatim>\<open>(nan,nan)\<close> has an entry that is not finite. It does
  so before anything else: the sink is as it was and no local variable exists. When every
  entry is finite the run goes on: the first assessment, with the climatological mean and
  covariance, is recorded, and the only exception left is the \<^verbatim>\<open>IndexError\<close> of
  \<^verbatim>\<open>yy[kObs]\<close>.
\<close>

theorem OptInterp_fails_fast:
  "(\<exists>m. fst (OptInterp hmm xx yy st) = Some (AssimFailedError m))
      = (\<not> list_all (list_all isfinite) (Obs_linear hmm (Scalar NaN) NaN))
   \<and> (if list_all (list_all isfinite) (Obs_linear hmm (Scalar NaN) NaN)
      then (fst (OptInterp hmm xx yy st) = None \<or> fst (OptInterp hmm xx yy st) = Some IndexError)
         \<and> fst (snd (OptInterp hmm xx yy st)) \<noteq> None
         \<and> take (Suc (length (assessments st))) (assessments (snd (snd (OptInterp hmm xx yy st))))
             = assessments st @ [\<lparr>a_k = 0, a_kObs = None, a_fau = None, a_mu = mean0 xx,
                 a_Cov = divs (matmul (transpose (rows_sub xx (mean0 xx))) (rows_sub xx (mean0 xx)))
                           (Fin (real_of_int (int (length xx) - 1)))\<rparr>]
      else OptInterp hmm xx yy st = (Some (AssimFailedError oi_msg), None, st))"
proof (cases "list_all (list_all isfinite) (Obs_linear hmm (Scalar NaN) NaN)")
  case False
  then have "OptInterp hmm xx yy st = (Some (AssimFailedError oi_msg), None, st)"
    by (simp add: OptInterp_def OptInterp_setup_def)
  with False show ?thesis by simp
next
  case True
  then obtain l0 where s: "OptInterp_setup hmm xx = Inr l0"
    by (simp add: OptInterp_setup_def Let_def)
  let ?s0 = "assess st 0 None None (oi_mu l0) (oi_PC l0)"
  let ?r = "for_each (OptInterp_tick hmm yy) (ticker hmm) (l0, ?s0)"
  have r: "OptInterp hmm xx yy st = (fst ?r, Some (fst (snd ?r)), snd (snd ?r))"
    using s by (simp add: OptInterp_def split: prod.splits)
  have e: "fst ?r = None \<or> fst ?r = Some IndexError"
    by (rule for_each_err) (rule OptInterp_tick_err)
  from OptInterp_loop_appends [of hmm yy "ticker hmm" l0 ?s0]
  obtain ys where "assessments (snd (snd ?r)) = assessments ?s0 @ ys" by blast
  then have "take (Suc (length (assessments st))) (assessments (snd (snd ?r)))
      = assessments st @ [\<lparr>a_k = 0, a_kObs = None, a_fau = None, a_mu = oi_mu l0,
            a_Cov = oi_PC l0\<rparr>]"
    by (simp add: assess_def)
  with True r e OptInterp_setup_Inr [OF s] show ?thesis by auto
qed

theorem OptInterp_fails_fast_witness:
  "OptInterp (ex_hmm\<lparr>Obs_linear := (\<lambda>x t. [[NaN, Fin 0], [Fin 0, NaN]])\<rparr>) ex_xx ex_yy ex_stats
     = (Some (AssimFailedError oi_msg), None, ex_stats)
   \<and> take 1 (assessments (snd (snd (OptInterp ex_hmm ex_xx ex_yy ex_stats))))
     = [\<lparr>a_k = 0, a_kObs = None, a_fau = None, a_mu = [Fin 0, Fin 0],
          a_Cov = [[Fin (4 / 3), Fin 0], [Fin 0, Fin (4 / 3)]]\<rparr>]"
proof -
  have 1: "\<not> list_all (list_all isfinite)
      (Obs_linear (ex_hmm\<lparr>Obs_linear := (\<lambda>x t. [[NaN, Fin 0], [Fin 0, NaN]])\<rparr>) (Scalar NaN) NaN)"
    by simp
  have 2: "list_all (list_all isfinite) (Obs_linear ex_hmm (Scalar NaN) NaN)"
    by (simp add: ex_hmm_def eye2)
  have m: "mean0 ex_xx = [Fin 0, Fin 0]" by (simp add: ex_xx_def arr_defs)
  from OptInterp_fails_fast
    [of "ex_hmm\<lparr>Obs_linear := (\<lambda>x t. [[NaN, Fin 0], [Fin 0, NaN]])\<rparr>" ex_xx ex_yy ex_stats] 1
  have "OptInterp (ex_hmm\<lparr>Obs_linear := (\<lambda>x t. [[NaN, Fin 0], [Fin 0, NaN]])\<rparr>) ex_xx ex_yy ex_stats
     = (Some (AssimFailedError oi_msg), None, ex_stats)"
    by (simp only: if_False)
  moreover from OptInterp_fails_fast [of ex_hmm ex_xx ex_yy ex_stats] 2
  have "take (Suc (length (assessments ex_stats)))
          (assessments (snd (snd (OptInterp ex_hmm ex_xx ex_yy ex_stats))))
     = assessments ex_stats @ [\<lparr>a_k = 0, a_kObs = None, a_fau = None, a_mu = mean0 ex_xx,
          a_Cov = divs (matmul (transpose (rows_sub ex_xx (mean0 ex_xx))) (rows_sub ex_xx (mean0 ex_xx)))
                    (Fin (real_of_int (int (length ex_xx) - 1)))\<rparr>]"
    by (simp only: if_True)
  ultimately show ?thesis by (simp add: m ex_stats_def) (simp add: ex_xx_def arr_defs)
qed

section \<open>The sigmoid is a diagnostic\<close>

lemma OptInterp_tick_ecl [simp]:
  "OptInterp_tick (hmm\<lparr>estimate_corr_length := f\<rparr>) yy = OptInterp_tick hmm yy"
  by (simp add: OptInterp_tick_def Let_def cong: if_cong option.case_cong)

lemma Var3D_tick_ecl [simp]:
  "Var3D_tick (hmm\<lparr>estimate_corr_length := f\<rparr>) yy = Var3D_tick hmm yy"
  by (simp add: Var3D_tick_def Let_def cong: if_cong option.case_cong)

lemma OptInterp_tick_rel:
  assumes "oi_H l = oi_H l'" "oi_muC l = oi_muC l'" "oi_PC l = oi_PC l'" "oi_KG l = oi_KG l'"
    "oi_mu l = oi_mu l'" "map no_cov (assessments st) = map no_cov (assessments st')"
  shows "case (OptInterp_tick hmm yy (l, st) x, OptInterp_tick hmm yy (l', st') x) of
     ((e, l1, s1), (e', l1', s1')) \<Rightarrow> e = e' \<and> oi_H l1 = oi_H l1' \<and> oi_muC l1 = oi_muC l1'
       \<and> oi_PC l1 = oi_PC l1' \<and> oi_KG l1 = oi_KG l1' \<and> oi_mu l1 = oi_mu l1'
       \<and> map no_cov (assessments s1) = map no_cov (assessments s1')"
  using assms
  by (cases x) (auto simp: OptInterp_tick_def Let_def assess_def no_cov_def split: option.splits)

lemma OptInterp_ecl:
  "oi_view (OptInterp (hmm\<lparr>estimate_corr_length := f\<rparr>) xx yy st) = oi_view (OptInterp hmm xx yy st)"
proof (cases "list_all (list_all isfinite) (Obs_linear hmm (Scalar NaN) NaN)")
  case False
  then show ?thesis by (simp add: OptInterp_def OptInterp_setup_def)
next
  case True
  let ?hmm' = "hmm\<lparr>estimate_corr_length := f\<rparr>"
  let ?R = "\<lambda>(s :: oi_locals \<times> stats) (s' :: oi_locals \<times> stats).
     oi_H (fst s) = oi_H (fst s') \<and> oi_muC (fst s) = oi_muC (fst s')
     \<and> oi_PC (fst s) = oi_PC (fst s') \<and> oi_KG (fst s) = oi_KG (fst s')
     \<and> oi_mu (fst s) = oi_mu (fst s')
     \<and> map no_cov (assessments (snd s)) = map no_cov (assessments (snd s'))"
  from True obtain l0 where s: "OptInterp_setup hmm xx = Inr l0"
    by (simp add: OptInterp_setup_def Let_def)
  from True obtain l0' where s': "OptInterp_setup ?hmm' xx = Inr l0'"
    by (simp add: OptInterp_setup_def Let_def)
  let ?s0 = "(l0, assess st 0 None None (oi_mu l0) (oi_PC l0))"
  let ?s0' = "(l0', assess st 0 None None (oi_mu l0') (oi_PC l0'))"
  have r0: "?R ?s0' ?s0"
    using s s' True by (auto simp: OptInterp_setup_def Let_def assess_def no_cov_def)
  have step: "fst (OptInterp_tick hmm yy a x) = fst (OptInterp_tick hmm yy a' x)
      \<and> ?R (snd (OptInterp_tick hmm yy a x)) (snd (OptInterp_tick hmm yy a' x))"
    if "?R a a'" for a a' x
    using that OptInterp_tick_rel [of "fst a" "fst a'" "snd a" "snd a'" hmm yy x]
    by (auto split: prod.splits)
  have "fst (for_each (OptInterp_tick hmm yy) (ticker hmm) ?s0')
          = fst (for_each (OptInterp_tick hmm yy) (ticker hmm) ?s0)
      \<and> ?R (snd (for_each (OptInterp_tick hmm yy) (ticker hmm) ?s0'))
            (snd (for_each (OptInterp_tick hmm yy) (ticker hmm) ?s0))"
    by (rule for_each_rel [where R = ?R, OF step r0])
  then show ?thesis using s s'
    by (auto simp: OptInterp_def oi_view_def split: prod.splits)
qed

lemma Var3D_tick_rel:
  assumes "v3_B l = v3_B l'" "v3_mu l = v3_mu l'" "v3_H l = v3_H l'" "v3_KG l = v3_KG l'"
    "map no_cov (assessments st) = map no_cov (assessments st')"
  shows "case (Var3D_tick hmm yy (l, st) x, Var3D_tick hmm yy (l', st') x) of
     ((e, l1, s1), (e', l1', s1')) \<Rightarrow> e = e' \<and> v3_B l1 = v3_B l1' \<and> v3_mu l1 = v3_mu l1'
       \<and> v3_H l1 = v3_H l1' \<and> v3_KG l1 = v3_KG l1'
       \<and> map no_cov (assessments s1) = map no_cov (assessments s1')"
  using assms
  by (cases x) (auto simp: Var3D_tick_def Let_def assess_def no_cov_def split: option.splits)

lemma Var3D_ecl:
  "v3_view (Var3D cfg (hmm\<lparr>estimate_corr_length := f\<rparr>) xx yy st) = v3_view (Var3D cfg hmm xx yy st)"
proof (cases "Var3D_B cfg xx")
  case (Inl e)
  then show ?thesis by (simp add: Var3D_def v3_view_def)
next
  case (Inr B)
  let ?hmm' = "hmm\<lparr>estimate_corr_length := f\<rparr>"
  let ?R = "\<lambda>(s :: v3_locals \<times> stats) (s' :: v3_locals \<times> stats).
     v3_B (fst s) = v3_B (fst s') \<and> v3_mu (fst s) = v3_mu (fst s')
     \<and> v3_H (fst s) = v3_H (fst s') \<and> v3_KG (fst s) = v3_KG (fst s')
     \<and> map no_cov (assessments (snd s)) = map no_cov (assessments (snd s'))"
  let ?l0 = "Var3D_setup hmm B xx" and ?l0' = "Var3D_setup ?hmm' B xx"
  let ?s0 = "(?l0, assess st 0 None None (v3_mu ?l0) (v3_P ?l0))"
  let ?s0' = "(?l0', assess st 0 None None (v3_mu ?l0') (v3_P ?l0'))"
  have r0: "?R ?s0' ?s0"
    by (simp add: Var3D_setup_def Let_def assess_def no_cov_def)
  have step: "fst (Var3D_tick hmm yy a x) = fst (Var3D_tick hmm yy a' x)
      \<and> ?R (snd (Var3D_tick hmm yy a x)) (snd (Var3D_tick hmm yy a' x))"
    if "?R a a'" for a a' x
    using that Var3D_tick_rel [of "fst a" "fst a'" "snd a" "snd a'" hmm yy x]
    by (auto split: prod.splits)
  have "fst (for_each (Var3D_tick hmm yy) (ticker hmm) ?s0')
          = fst (for_each (Var3D_tick hmm yy) (ticker hmm) ?s0)
      \<and> ?R (snd (for_each (Var3D_tick hmm yy) (ticker hmm) ?s0'))
            (snd (for_each (Var3D_tick hmm yy) (ticker hmm) ?s0))"
    by (rule for_each_rel [where R = ?R, OF step r0])
  then show ?thesis using Inr
    by (auto simp: Var3D_def v3_view_def Let_def split: prod.splits)
qed

text \<open>
  C1. Two runs of OptInterp, or of Var3D, that differ only in the correlation length
  \<^verbatim>\<open>L\<close> (here: in the estimator that returns it), and hence in the sigmoid, raise
  the same exception or none, end with the same Kalman gain and the same mean, and hand
  the same assessments to the sink up to their covariances. The ticker is cut after any
  number \<open>n\<close> of ticks, so that this holds for the gain and the mean after every tick.
\<close>

theorem sigmoid_is_diagnostic_only:
  "oi_view (OptInterp (hmm\<lparr>ticker := take n (ticker hmm), estimate_corr_length := f\<rparr>) xx yy st)
     = oi_view (OptInterp (hmm\<lparr>ticker := take n (ticker hmm)\<rparr>) xx yy st)
   \<and> v3_view (Var3D cfg (hmm\<lparr>ticker := take n (ticker hmm), estimate_corr_length := f\<rparr>) xx yy st)
     = v3_view (Var3D cfg (hmm\<lparr>ticker := take n (ticker hmm)\<rparr>) xx yy st)"
  using OptInterp_ecl [where hmm = "hmm\<lparr>ticker := take n (ticker hmm)\<rparr>" and f = f]
    Var3D_ecl [where hmm = "hmm\<lparr>ticker := take n (ticker hmm)\<rparr>" and f = f]
  by simp

section \<open>The anchor of the refitted sigmoid\<close>

text \<open>
  C2. After an analysis both variants refit the sigmoid at the step \<open>k\<close>.
  \<^verbatim>\<open>Var3D\<close> recomputes \<^verbatim>\<open>P = (eye(M) - KG@H)@B\<close> and anchors the fit at
  \<^verbatim>\<open>trace(P)/trace(CC)\<close> with \<^verbatim>\<open>CC = 2*np.cov(xx.T)\<close> (\<open>Var3D_tick_obs\<close>).
  \<^verbatim>\<open>OptInterp\<close> anchors the first fit at \<^verbatim>\<open>trace(P)/trace(2*PC)\<close>, but the refit
  in the loop at \<^verbatim>\<open>trace(P)/trace(PC)\<close>, without the factor two
  (\<open>OptInterp_tick_obs\<close>). In the run below the analysis covariance is the identity
  and \<^verbatim>\<open>trace(P)/trace(2*PC)\<close> is 3/8; the refitted sigmoid takes the value 3/4 at the
  step of the analysis, and the covariance handed to the sink is twice the analysis
  covariance.
\<close>

theorem OptInterp_refit_anchor_example:
  "(case OptInterp ex_hmm ex_xx ex_yy ex_stats of
     (e, lo, st') \<Rightarrow> e = None
       \<and> map_option (\<lambda>l. oi_SM l (Fin 2)) lo = Some (Fin (3 / 4))
       \<and> map_option (\<lambda>l. fdiv (trace (oi_P l)) (trace (smul (Fin 2) (oi_PC l)))) lo
           = Some (Fin (3 / 8))
       \<and> map_option oi_P lo = Some [[Fin 1, Fin 0], [Fin 0, Fin 1]]
       \<and> a_Cov (last (assessments st')) = [[Fin 2, Fin 0], [Fin 0, Fin 2]])"
  by (simp add: run_defs)

section \<open>Arrays with finite entries and the identity matrix\<close>











lemma length_eye [simp]: "length (eye n) = n"
  by (simp add: eye_def)

lemma nth_eye: "i < n \<Longrightarrow> eye n ! i = map (\<lambda>j. if i = j then Fin 1 else Fin 0) [0..<n]"
  by (simp add: eye_def)




lemma fadd_zero [simp]: "fadd x (Fin 0) = x"
  by (cases x) simp_all

lemma fmul_one [simp]: "fmul x (Fin 1) = x"
  by (cases x) (simp_all add: inf_of_def)













section \<open>3D-Var\<close>

lemma Var3D_setup_ticker [simp]:
  "Var3D_setup (hmm\<lparr>ticker := ts\<rparr>) B xx = Var3D_setup hmm B xx"
  by (simp add: Var3D_setup_def Let_def)

lemma Var3D_tick_ticker [simp]:
  "Var3D_tick (hmm\<lparr>ticker := ts\<rparr>) yy = Var3D_tick hmm yy"
  by (simp add: Var3D_tick_def Let_def cong: if_cong option.case_cong)

lemma Var3D_Some:
  assumes "Var3D cfg hmm xx yy st = (e, cfg', Some l, st')"
  obtains B where "Var3D_B cfg xx = Inr B" and "cfg' = cfg\<lparr>cfg_B := B_array B\<rparr>"
    and "for_each (Var3D_tick hmm yy) (ticker hmm)
           (Var3D_setup hmm B xx,
            assess st 0 None None (v3_mu (Var3D_setup hmm B xx)) (v3_P (Var3D_setup hmm B xx)))
         = (e, l, st')"
  using assms by (auto simp: Var3D_def Let_def split: sum.splits prod.splits)















end
